theory Spec2Isabelle
  imports Complex_Main "HOL-Library.Sublist"
begin

section \<open>JavaScript strings\<close>

text \<open>
  Descriptions, identifiers and prompts are modelled as \<^typ>\<open>string\<close>. The characters
  are the ASCII range of the source's strings: \<open>toLowerCase\<close> maps the letters
  \<open>A\<close> to \<open>Z\<close> to \<open>a\<close> to \<open>z\<close> and leaves every other character as it is.
\<close>

definition upper_lower_table :: "(char \<times> char) list" where
  "upper_lower_table =
     zip ''ABCDEFGHIJKLMNOPQRSTUVWXYZ'' ''abcdefghijklmnopqrstuvwxyz''"

definition toLowerCase_char :: "char \<Rightarrow> char" where
  "toLowerCase_char c = (case map_of upper_lower_table c of Some l \<Rightarrow> l | None \<Rightarrow> c)"

definition toLowerCase :: "string \<Rightarrow> string" where
  "toLowerCase s = map toLowerCase_char s"

text \<open>
  \<open>String.prototype.includes\<close>: is there a position of \<open>s\<close> at which \<open>p\<close> starts?
  The search runs over the positions from left to right.
\<close>

fun str_includes :: "string \<Rightarrow> string \<Rightarrow> bool" where
  "str_includes [] p = (p = [])"
| "str_includes (c # cs) p = (prefix p (c # cs) \<or> str_includes cs p)"

section \<open>Task-type inference (\<open>TaskManager.inferTaskType\<close>)\<close>

definition inferTaskType :: "string \<Rightarrow> string" where
  "inferTaskType description =
     (let lowerDesc = toLowerCase description in
      if str_includes lowerDesc ''analyze'' \<or> str_includes lowerDesc ''check''
           \<or> str_includes lowerDesc ''review'' then ''analyze''
      else if str_includes lowerDesc ''fix'' \<or> str_includes lowerDesc ''correct''
           \<or> str_includes lowerDesc ''repair'' then ''fix''
      else if str_includes lowerDesc ''generate'' \<or> str_includes lowerDesc ''create''
           \<or> str_includes lowerDesc ''write'' then ''generate''
      else if str_includes lowerDesc ''explain'' \<or> str_includes lowerDesc ''describe''
           \<or> str_includes lowerDesc ''clarify'' then ''explain''
      else ''general'')"

section \<open>Numbers, errors and the environment\<close>

text \<open>
  A JavaScript number that results from dividing two counts: a finite quotient,
  \<open>Infinity\<close> (a positive count divided by zero) or \<open>NaN\<close> (zero divided by zero).
  Finite quotients are kept exact.
\<close>

datatype js_number = Finite real | PosInfinity | NaN

definition js_divide :: "nat \<Rightarrow> nat \<Rightarrow> js_number" where
  "js_divide a b =
     (if b = 0 then (if a = 0 then NaN else PosInfinity) else Finite (real a / real b))"

text \<open>Decimal rendering of a non-negative integer inside a template literal.\<close>

definition digit_char :: "nat \<Rightarrow> char" where
  "digit_char d = ''0123456789'' ! d"

fun show_nat :: "nat \<Rightarrow> string" where
  "show_nat n = (if n < 10 then [digit_char n] else show_nat (n div 10) @ [digit_char (n mod 10)])"

declare show_nat.simps [simp del]

text \<open>
  A thrown value (the reason a promise rejects with) can be any JavaScript value: the
  handlers are \<open>catch (error: any)\<close>. The engine only ever reads its \<open>message\<close>
  property, so four kinds are told apart: \<open>Error m\<close>, a value whose \<open>message\<close> is the
  string \<open>m\<close>, as every \<open>Error\<close> object is; \<open>NonError\<close>, a value that has no such
  property (a string, a number, a plain object), where the read gives \<open>undefined\<close>; and
  \<open>null\<close> and \<open>undefined\<close>, where the read itself throws a \<open>TypeError\<close>.
\<close>

datatype js_error = Error string | NonError | Null | Undefined

definition error_message :: "js_error \<Rightarrow> string option" where
  "error_message e = (case e of Error m \<Rightarrow> Some m | _ \<Rightarrow> None)"

text \<open>
  The \<open>TypeError\<close> of reading \<open>.message\<close> on \<open>null\<close> or \<open>undefined\<close>, with the
  wording of the V8 engine that runs the extension.
\<close>

definition message_type_error :: "js_error \<Rightarrow> js_error" where
  "message_type_error e =
     Error (''Cannot read properties of ''
            @ (case e of Null \<Rightarrow> ''null'' | _ \<Rightarrow> ''undefined'')
            @ '' (reading '' @ [CHR 0x27] @ ''message'' @ [CHR 0x27] @ '')'')"

text \<open>The expression \<open>error.message\<close>: its value, or the error it throws.\<close>

definition read_message :: "js_error \<Rightarrow> js_error + string option" where
  "read_message e =
     (case e of
        Error m \<Rightarrow> Inr (Some m)
      | NonError \<Rightarrow> Inr None
      | Null \<Rightarrow> Inl (message_type_error Null)
      | Undefined \<Rightarrow> Inl (message_type_error Undefined))"

text \<open>
  Everything outside the engine (the clock, the random source, the LLM provider, the
  code analyzer) is a world of type \<open>'w\<close> that every read or call takes and returns.
  \<open>new Date()\<close> and \<open>Date.now()\<close> read a clock; a date is its millisecond count.
\<close>

type_synonym date = nat

type_synonym 'w clock = "'w \<Rightarrow> date \<times> 'w"

type_synonym 'w random_source = "'w \<Rightarrow> string \<times> 'w"

section \<open>Data model (\<open>AgentContext\<close>, \<open>AgentTask\<close>, \<open>TaskChain\<close>)\<close>

datatype status = Pending | Running | Completed | Failed

record 'r agentContext =
  code :: "string option"
  language :: "string option"
  selection :: "string option"
  filePath :: "string option"
  projectContext :: "string option"
  previousResults :: "'r list option"

definition empty_context :: "'r agentContext" where
  "empty_context = \<lparr>code = None, language = None, selection = None, filePath = None,
     projectContext = None, previousResults = None\<rparr>"

record 'r agentTask =
  task_id :: string
  task_type :: string
  description :: string
  task_context :: "'r agentContext"
  task_status :: status
  result :: "'r option"
  error :: "string option"
  task_createdAt :: date
  task_completedAt :: "date option"

record 'r taskChain =
  chain_id :: string
  chain_name :: string
  tasks :: "'r agentTask list"
  chain_status :: status
  chain_createdAt :: date
  chain_completedAt :: "date option"
  results :: "'r list"

text \<open>
  The manager owns two maps. A task object lives in the \<open>tasks\<close> array of its chain;
  \<open>activeTasks\<close> holds a reference to it, modelled as the chain id and the index.
\<close>

record 'r taskManager =
  taskChains :: "string \<rightharpoonup> 'r taskChain"
  activeTasks :: "string \<rightharpoonup> (string \<times> nat)"

definition new_TaskManager :: "'r taskManager" where
  "new_TaskManager = \<lparr>taskChains = Map.empty, activeTasks = Map.empty\<rparr>"

section \<open>The agent's single-task executor (\<open>BaseAgent.executeTask\<close>)\<close>

text \<open>
  A capability's \<open>execute(context, parameters?)\<close> is asynchronous: it settles with a
  result or rejects with an error, and may use the world meanwhile.
\<close>

record ('r, 'p, 'w) agentCapability =
  cap_name :: string
  cap_description :: string
  execute :: "'r agentContext \<Rightarrow> 'p option \<Rightarrow> 'w \<Rightarrow> (js_error + 'r) \<times> 'w"

type_synonym ('r, 'p, 'w) capabilities = "string \<rightharpoonup> ('r, 'p, 'w) agentCapability"

text \<open>
  \<open>executeTask(task)\<close> has one parameter and calls \<open>capability.execute(task.context)\<close>
  with the context alone, so the capability's \<open>parameters\<close> are \<open>undefined\<close>.
  The function returns the settled promise (\<open>Inl\<close> the rejection) with the task as mutated.

  \<open>executeTask_await\<close> is the part before the \<open>await\<close>: the status is set to
  \<open>running\<close> and the capability is looked up. Its first component is the task as it is
  while the capability's promise is pending, which is what \<open>cancelTaskChain\<close> finds
  when it is called in the meantime.
\<close>

definition executeTask_await ::
  "('r, 'p, 'w) capabilities \<Rightarrow> 'r agentTask
     \<Rightarrow> 'r agentTask \<times> ('r, 'p, 'w) agentCapability option" where
  "executeTask_await caps task =
     (let task1 = task\<lparr>task_status := Running\<rparr> in (task1, caps (task_type task1)))"

text \<open>The rest of the \<open>try\<close> block, once the capability has resolved with \<open>res\<close>.\<close>

definition handle_result ::
  "'w clock \<Rightarrow> 'r \<Rightarrow> 'r agentTask \<Rightarrow> 'w \<Rightarrow> ((js_error + 'r) \<times> 'r agentTask) \<times> 'w" where
  "handle_result clk res task1 w1 =
     (let task2 = task1\<lparr>result := Some res\<rparr>;
          task3 = task2\<lparr>task_status := Completed\<rparr>;
          (d, w2) = clk w1
      in ((Inr res, task3\<lparr>task_completedAt := Some d\<rparr>), w2))"

text \<open>
  The \<open>catch\<close> block: \<open>task.status = "failed"\<close>, then \<open>task.error = error.message\<close>,
  then the completion time, then \<open>throw error\<close>. When reading the message throws, the
  block ends there: that error leaves \<open>executeTask\<close> and the two statements after it do
  not run.
\<close>

definition handle_rejection ::
  "'w clock \<Rightarrow> js_error \<Rightarrow> 'r agentTask \<Rightarrow> 'w \<Rightarrow> ((js_error + 'r) \<times> 'r agentTask) \<times> 'w" where
  "handle_rejection clk err task1 w1 =
     (let task2 = task1\<lparr>task_status := Failed\<rparr> in
      case read_message err of
        Inl type_error \<Rightarrow> ((Inl type_error, task2), w1)
      | Inr msg \<Rightarrow>
          (let task3 = task2\<lparr>error := msg\<rparr>;
               (d, w2) = clk w1
           in ((Inl err, task3\<lparr>task_completedAt := Some d\<rparr>), w2)))"

definition executeTask ::
  "'w clock \<Rightarrow> ('r, 'p, 'w) capabilities \<Rightarrow> 'r agentTask \<Rightarrow> 'w
     \<Rightarrow> ((js_error + 'r) \<times> 'r agentTask) \<times> 'w" where
  "executeTask clk caps task w =
     (case executeTask_await caps task of
        (task1, None) \<Rightarrow>
          handle_rejection clk (Error (''Unknown task type: '' @ task_type task1)) task1 w
      | (task1, Some capability) \<Rightarrow>
          (case execute capability (task_context task1) None w of
             (Inr res, w1) \<Rightarrow> handle_result clk res task1 w1
           | (Inl err, w1) \<Rightarrow> handle_rejection clk err task1 w1))"

section \<open>Task Chain Engine (\<open>TaskManager\<close>)\<close>

subsection \<open>\<open>createTaskChain\<close>\<close>

fun create_tasks ::
  "'w clock \<Rightarrow> string \<Rightarrow> 'r agentContext \<Rightarrow> nat \<Rightarrow> string list \<Rightarrow> 'w
     \<Rightarrow> 'r agentTask list \<times> 'w" where
  "create_tasks clk chainId ctx index [] w = ([], w)"
| "create_tasks clk chainId ctx index (d # ds) w =
     (let (created, w1) = clk w;
          task = \<lparr>task_id = chainId @ ''-task-'' @ show_nat index,
                  task_type = inferTaskType d,
                  description = d,
                  task_context = ctx,
                  task_status = Pending,
                  result = None,
                  error = None,
                  task_createdAt = created,
                  task_completedAt = None\<rparr>;
          (ts, w2) = create_tasks clk chainId ctx (Suc index) ds w1
      in (task # ts, w2))"

text \<open>
  The chain id is \<open>chain-<Date.now()>-<random suffix>\<close>; the suffix
  \<open>Math.random().toString(36).substr(2, 9)\<close> is read from the random source.
\<close>

definition createTaskChain ::
  "'w clock \<Rightarrow> 'w random_source \<Rightarrow> string \<Rightarrow> string list \<Rightarrow> 'r agentContext option
     \<Rightarrow> 'r taskManager \<Rightarrow> 'w \<Rightarrow> ('r taskChain \<times> 'r taskManager) \<times> 'w" where
  "createTaskChain clk rnd name taskDescriptions initialContext tm w =
     (let (now, w1) = clk w;
          (suffix, w2) = rnd w1;
          chainId = ''chain-'' @ show_nat now @ ''-'' @ suffix;
          (ts, w3) = create_tasks clk chainId
                       (case initialContext of Some c \<Rightarrow> c | None \<Rightarrow> empty_context)
                       0 taskDescriptions w2;
          (created, w4) = clk w3;
          taskChain = \<lparr>chain_id = chainId, chain_name = name, tasks = ts,
                       chain_status = Pending, chain_createdAt = created,
                       chain_completedAt = None, results = []\<rparr>
      in ((taskChain, tm\<lparr>taskChains := (taskChains tm)(chainId \<mapsto> taskChain)\<rparr>), w4))"

subsection \<open>\<open>executeTaskChain\<close>\<close>

text \<open>
  Every task dispatched in one run gets \<open>previousResults: results\<close>, the run's one
  local array, which \<open>results.push\<close> then extends in place: after a push, the contexts
  of the tasks at indices \<open>0..i\<close> all show the longer array.
\<close>

definition share_results :: "'r list \<Rightarrow> nat \<Rightarrow> 'r agentTask list \<Rightarrow> 'r agentTask list" where
  "share_results rs i ts =
     map (\<lambda>t. t\<lparr>task_context := (task_context t)\<lparr>previousResults := Some rs\<rparr>\<rparr>)
         (take (Suc i) ts) @ drop (Suc i) ts"



lemma length_share_results [simp]: "length (share_results rs i ts) = length ts"
  by (simp add: share_results_def)




subsection \<open>\<open>cancelTaskChain\<close>, \<open>deleteTaskChain\<close>, \<open>getTaskChain\<close>, \<open>getTaskProgress\<close>\<close>

fun cancel_tasks :: "'w clock \<Rightarrow> 'r agentTask list \<Rightarrow> 'w \<Rightarrow> 'r agentTask list \<times> 'w" where
  "cancel_tasks clk [] w = ([], w)"
| "cancel_tasks clk (task # ts) w =
     (if task_status task = Running then
        (let task1 = task\<lparr>task_status := Failed\<rparr>;
             task2 = task1\<lparr>error := Some ''Cancelled by user''\<rparr>;
             (d, w1) = clk w;
             (ts', w2) = cancel_tasks clk ts w1
         in (task2\<lparr>task_completedAt := Some d\<rparr> # ts', w2))
      else (let (ts', w2) = cancel_tasks clk ts w in (task # ts', w2)))"

definition cancelTaskChain ::
  "'w clock \<Rightarrow> string \<Rightarrow> 'r taskManager \<Rightarrow> 'w \<Rightarrow> (bool \<times> 'r taskManager) \<times> 'w" where
  "cancelTaskChain clk chainId tm w =
     (case taskChains tm chainId of
        None \<Rightarrow> ((False, tm), w)
      | Some chain \<Rightarrow>
          if chain_status chain \<noteq> Running then ((False, tm), w)
          else (let (ts, w1) = cancel_tasks clk (tasks chain) w;
                    chain1 = chain\<lparr>tasks := ts\<rparr>;
                    chain2 = chain1\<lparr>chain_status := Failed\<rparr>;
                    (d, w2) = clk w1;
                    chain3 = chain2\<lparr>chain_completedAt := Some d\<rparr>
                in ((True, tm\<lparr>taskChains := (taskChains tm)(chainId \<mapsto> chain3)\<rparr>), w2)))"


definition getTaskChain :: "string \<Rightarrow> 'r taskManager \<Rightarrow> 'r taskChain option" where
  "getTaskChain chainId tm = taskChains tm chainId"

definition getTaskProgress :: "string \<Rightarrow> 'r taskManager \<Rightarrow> js_number" where
  "getTaskProgress chainId tm =
     (case taskChains tm chainId of
        None \<Rightarrow> Finite 0
      | Some chain \<Rightarrow>
          (let completedTasks = length (filter (\<lambda>t. task_status t = Completed) (tasks chain))
           in js_divide completedTasks (length (tasks chain))))"

section \<open>Conversation history (\<open>BaseAgent.addToConversation\<close>)\<close>

datatype role = System | User | Assistant

record llmMessage =
  role :: role
  content :: string

text \<open>
  \<open>Array.prototype.slice(start)\<close>: a negative \<open>start\<close> counts from the end, and the
  start index is clamped to the array.
\<close>

definition slice_from :: "int \<Rightarrow> 'a list \<Rightarrow> 'a list" where
  "slice_from start xs =
     (let len = int (length xs);
          k = (if start < 0 then max (len + start) 0 else min start len)
      in drop (nat k) xs)"

definition addToConversation :: "role \<Rightarrow> string \<Rightarrow> llmMessage list \<Rightarrow> llmMessage list" where
  "addToConversation r c conversationHistory =
     (let pushed = conversationHistory @ [\<lparr>role = r, content = c\<rparr>]
      in if length pushed > 20 then slice_from (- 20) pushed else pushed)"

definition clearConversation :: "llmMessage list \<Rightarrow> llmMessage list" where
  "clearConversation conversationHistory = []"

section \<open>Prompt templates (\<open>PromptTemplates\<close>)\<close>

definition SYSTEM_PROMPT :: string where
  "SYSTEM_PROMPT =
     ''You are Pyr Dev, an advanced AI code assistant. You help developers write, debug, and improve code.\<newline>'' @
     ''\<newline>'' @
     ''Key capabilities:\<newline>'' @
     ''- Analyze code for bugs, performance issues, and best practices\<newline>'' @
     ''- Generate high-quality code from natural language descriptions\<newline>'' @
     ''- Explain complex code in simple terms\<newline>'' @
     ''- Suggest improvements and optimizations\<newline>'' @
     ''- Support multiple programming languages\<newline>'' @
     ''\<newline>'' @
     ''Guidelines:\<newline>'' @
     ''- Provide clear, concise explanations\<newline>'' @
     ''- Include code examples when helpful\<newline>'' @
     ''- Focus on best practices and clean code\<newline>'' @
     ''- Be specific about potential issues and solutions\<newline>'' @
     ''- Consider performance, security, and maintainability''"

definition CODE_ANALYSIS_PROMPT :: string where
  "CODE_ANALYSIS_PROMPT =
     ''Analyze the following code and identify:\<newline>'' @
     ''1. Potential bugs or errors\<newline>'' @
     ''2. Performance issues\<newline>'' @
     ''3. Security vulnerabilities\<newline>'' @
     ''4. Code style and best practice violations\<newline>'' @
     ''5. Suggestions for improvement\<newline>'' @
     ''\<newline>'' @
     ''Code Language: {language}\<newline>'' @
     ''Code:\<newline>'' @
     ''{code}\<newline>'' @
     ''\<newline>'' @
     ''Provide a structured analysis with specific recommendations.''"

definition CODE_FIX_PROMPT :: string where
  "CODE_FIX_PROMPT =
     ''Fix the following issues in the code:\<newline>'' @
     ''Issues: {issues}\<newline>'' @
     ''\<newline>'' @
     ''Original Code:\<newline>'' @
     ''{code}\<newline>'' @
     ''\<newline>'' @
     ''Provide the corrected code with explanations for each fix.''"

definition CODE_EXPLANATION_PROMPT :: string where
  "CODE_EXPLANATION_PROMPT =
     ''Explain the following code in detail:\<newline>'' @
     ''\<newline>'' @
     ''Language: {language}\<newline>'' @
     ''Code:\<newline>'' @
     ''{code}\<newline>'' @
     ''\<newline>'' @
     ''Provide:\<newline>'' @
     ''1. Overall purpose and functionality\<newline>'' @
     ''2. Step-by-step breakdown\<newline>'' @
     ''3. Key concepts and patterns used\<newline>'' @
     ''4. Potential use cases\<newline>'' @
     ''5. Any notable aspects or complexities''"

definition CODE_GENERATION_PROMPT :: string where
  "CODE_GENERATION_PROMPT =
     ''Generate {language} code based on this description:\<newline>'' @
     ''{description}\<newline>'' @
     ''\<newline>'' @
     ''Requirements:\<newline>'' @
     ''- Follow best practices and conventions\<newline>'' @
     ''- Include appropriate error handling\<newline>'' @
     ''- Add helpful comments\<newline>'' @
     ''- Make the code production-ready\<newline>'' @
     ''- Consider performance and maintainability''"

text \<open>
  The replacement string of \<open>String.prototype.replace\<close>: \<open>$$\<close> is a dollar sign,
  \<open>$&\<close> the matched text, \<open>$`\<close> the text before the match and \<open>$'\<close> the text after
  it. The patterns built by \<open>formatPrompt\<close> have no capture groups, so \<open>$1\<close> and the
  like stand for themselves.
\<close>

fun expand_replacement :: "string \<Rightarrow> string \<Rightarrow> string \<Rightarrow> string \<Rightarrow> string" where
  "expand_replacement matched preceding following [] = []"
| "expand_replacement matched preceding following [c] = [c]"
| "expand_replacement matched preceding following (c # d # ds) =
     (if c = CHR ''$'' then
        (if d = CHR ''$'' then CHR ''$'' # expand_replacement matched preceding following ds
         else if d = CHR ''&'' then matched @ expand_replacement matched preceding following ds
         else if d = CHR ''`'' then preceding @ expand_replacement matched preceding following ds
         else if d = CHR 0x27 then following @ expand_replacement matched preceding following ds
         else c # expand_replacement matched preceding following (d # ds))
      else c # expand_replacement matched preceding following (d # ds))"

text \<open>
  \<open>formatted.replace(new RegExp(`{${key}}`, "g"), value)\<close>. The keys are plain
  identifiers, so the pattern is the literal text \<open>{key}\<close>; the global flag replaces
  every match, found from left to right without overlap. \<open>preceding\<close> is the text already
  scanned and \<open>skip\<close> the number of characters of the current match still to pass.
\<close>

fun replace_scan :: "string \<Rightarrow> string \<Rightarrow> string \<Rightarrow> nat \<Rightarrow> string \<Rightarrow> string" where
  "replace_scan pat rep preceding skip [] = []"
| "replace_scan pat rep preceding (Suc skip) (c # cs) = replace_scan pat rep (preceding @ [c]) skip cs"
| "replace_scan pat rep preceding 0 (c # cs) =
     (if prefix pat (c # cs) then
        expand_replacement pat preceding (drop (length pat) (c # cs)) rep
          @ replace_scan pat rep (preceding @ [c]) (length pat - 1) cs
      else c # replace_scan pat rep (preceding @ [c]) 0 cs)"

definition replace_all :: "string \<Rightarrow> string \<Rightarrow> string \<Rightarrow> string" where
  "replace_all pat rep s = replace_scan pat rep [] 0 s"

text \<open>\<open>variables\<close> lists the entries of the object in insertion order.\<close>

definition formatPrompt :: "string \<Rightarrow> (string \<times> string) list \<Rightarrow> string" where
  "formatPrompt template variables =
     foldl (\<lambda>formatted (key, val). replace_all (''{'' @ key @ ''}'') val formatted)
       template variables"

section \<open>The concrete agent (\<open>PyrDevAgent\<close>)\<close>

text \<open>
  The LLM provider is used through \<open>generateResponse(messages)\<close> and the code analyzer
  through \<open>analyzeCode(code, language)\<close>; both are asynchronous calls into the world.
  The analyzer's result type is left open.
\<close>

type_synonym 'w llmProvider = "llmMessage list \<Rightarrow> 'w \<Rightarrow> (js_error + string) \<times> 'w"

type_synonym ('a, 'w) codeAnalyzer = "string \<Rightarrow> string \<Rightarrow> 'w \<Rightarrow> (js_error + 'a) \<times> 'w"

text \<open>
  What a capability of this agent returns: the provider's \<open>response.content\<close>, or for
  \<open>analyze\<close> the object \<open>{analysis, staticAnalysis}\<close>.
\<close>

datatype 'a pyr_result = Content string | Analysis string 'a

text \<open>The \<open>parameters\<close> objects that the capabilities of this agent read.\<close>

datatype pyr_parameters =
    FixParameters "string list"
  | GenerateParameters string
  | ChainParameters "string list" string

text \<open>\<open>x || fallback\<close> on an optional string: \<open>undefined\<close> and the empty string are falsy.\<close>

definition or_else :: "string option \<Rightarrow> string \<Rightarrow> string" where
  "or_else x fallback = (case x of None \<Rightarrow> fallback | Some s \<Rightarrow> if s = [] then fallback else s)"

definition falsy :: "string option \<Rightarrow> bool" where
  "falsy x = (case x of None \<Rightarrow> True | Some s \<Rightarrow> s = [])"

text \<open>\<open>Array.prototype.join\<close> with a separator.\<close>

fun join :: "string \<Rightarrow> string list \<Rightarrow> string" where
  "join sep [] = []"
| "join sep [x] = x"
| "join sep (x # y # ys) = x @ sep @ join sep (y # ys)"

definition ask_provider ::
  "'w llmProvider \<Rightarrow> string \<Rightarrow> 'w \<Rightarrow> (js_error + 'a pyr_result) \<times> 'w" where
  "ask_provider provider prompt w =
     (let messages = [\<lparr>role = System, content = SYSTEM_PROMPT\<rparr>,
                      \<lparr>role = User, content = prompt\<rparr>]
      in case provider messages w of
           (Inl err, w1) \<Rightarrow> (Inl err, w1)
         | (Inr response_content, w1) \<Rightarrow> (Inr (Content response_content), w1))"

definition analyze_execute ::
  "'w llmProvider \<Rightarrow> ('a, 'w) codeAnalyzer \<Rightarrow> 'a pyr_result agentContext
     \<Rightarrow> pyr_parameters option \<Rightarrow> 'w \<Rightarrow> (js_error + 'a pyr_result) \<times> 'w" where
  "analyze_execute provider analyzer ctx parameters w =
     (if falsy (code ctx) then (Inl (Error ''No code provided for analysis''), w)
      else
        (let prompt = formatPrompt CODE_ANALYSIS_PROMPT
                        [(''language'', or_else (language ctx) ''unknown''),
                         (''code'', the (code ctx))];
             messages = [\<lparr>role = System, content = SYSTEM_PROMPT\<rparr>,
                         \<lparr>role = User, content = prompt\<rparr>]
         in case provider messages w of
              (Inl err, w1) \<Rightarrow> (Inl err, w1)
            | (Inr response_content, w1) \<Rightarrow>
                (case analyzer (the (code ctx)) (or_else (language ctx) ''javascript'') w1 of
                   (Inl err, w2) \<Rightarrow> (Inl err, w2)
                 | (Inr staticAnalysis, w2) \<Rightarrow>
                     (Inr (Analysis response_content staticAnalysis), w2))))"

definition fix_execute ::
  "'w llmProvider \<Rightarrow> 'a pyr_result agentContext \<Rightarrow> pyr_parameters option \<Rightarrow> 'w
     \<Rightarrow> (js_error + 'a pyr_result) \<times> 'w" where
  "fix_execute provider ctx parameters w =
     (if falsy (code ctx) then (Inl (Error ''No code provided for fixing''), w)
      else
        (let issues = (case parameters of Some (FixParameters is) \<Rightarrow> is | _ \<Rightarrow> []);
             prompt = formatPrompt CODE_FIX_PROMPT
                        [(''code'', the (code ctx)),
                         (''issues'', join ''\<newline>'' issues)]
         in ask_provider provider prompt w))"

definition generate_execute ::
  "'w llmProvider \<Rightarrow> 'a pyr_result agentContext \<Rightarrow> pyr_parameters option \<Rightarrow> 'w
     \<Rightarrow> (js_error + 'a pyr_result) \<times> 'w" where
  "generate_execute provider ctx parameters w =
     (let desc = or_else (case parameters of Some (GenerateParameters d) \<Rightarrow> Some d | _ \<Rightarrow> None)
                   ''Generate code'';
          lang = or_else (language ctx) ''javascript'';
          prompt = formatPrompt CODE_GENERATION_PROMPT
                     [(''language'', lang), (''description'', desc)]
      in ask_provider provider prompt w)"

definition explain_execute ::
  "'w llmProvider \<Rightarrow> 'a pyr_result agentContext \<Rightarrow> pyr_parameters option \<Rightarrow> 'w
     \<Rightarrow> (js_error + 'a pyr_result) \<times> 'w" where
  "explain_execute provider ctx parameters w =
     (if falsy (code ctx) then (Inl (Error ''No code provided for explanation''), w)
      else
        (let prompt = formatPrompt CODE_EXPLANATION_PROMPT
                        [(''language'', or_else (language ctx) ''unknown''),
                         (''code'', the (code ctx))]
         in ask_provider provider prompt w))"

text \<open>
  The \<open>chain\<close> capability formats a prompt that it never sends: its messages are the
  system prompt followed by the agent's conversation history.
\<close>

definition chain_execute ::
  "'w llmProvider \<Rightarrow> llmMessage list \<Rightarrow> 'a pyr_result agentContext
     \<Rightarrow> pyr_parameters option \<Rightarrow> 'w \<Rightarrow> (js_error + 'a pyr_result) \<times> 'w" where
  "chain_execute provider conversationHistory ctx parameters w =
     (let messages = \<lparr>role = System, content = SYSTEM_PROMPT\<rparr> # conversationHistory
      in case provider messages w of
           (Inl err, w1) \<Rightarrow> (Inl err, w1)
         | (Inr response_content, w1) \<Rightarrow> (Inr (Content response_content), w1))"

definition initializeCapabilities ::
  "'w llmProvider \<Rightarrow> ('a, 'w) codeAnalyzer \<Rightarrow> llmMessage list
     \<Rightarrow> ('a pyr_result, pyr_parameters, 'w) capabilities" where
  "initializeCapabilities provider analyzer conversationHistory =
     [''analyze'' \<mapsto> \<lparr>cap_name = ''Code Analysis'',
         cap_description = ''Analyze code for issues, bugs, and improvements'',
         execute = analyze_execute provider analyzer\<rparr>,
      ''fix'' \<mapsto> \<lparr>cap_name = ''Code Fixing'',
         cap_description = ''Fix identified issues in code'',
         execute = fix_execute provider\<rparr>,
      ''generate'' \<mapsto> \<lparr>cap_name = ''Code Generation'',
         cap_description = ''Generate code from natural language description'',
         execute = generate_execute provider\<rparr>,
      ''explain'' \<mapsto> \<lparr>cap_name = ''Code Explanation'',
         cap_description = ''Explain code functionality and structure'',
         execute = explain_execute provider\<rparr>,
      ''chain'' \<mapsto> \<lparr>cap_name = ''Chain Task Execution'',
         cap_description = ''Execute a sequence of related tasks'',
         execute = chain_execute provider conversationHistory\<rparr>]"

subsection \<open>\<open>applyFixes\<close>\<close>

datatype severity = Sev_error | Sev_warning | Sev_info | Sev_hint

fun severity_string :: "severity \<Rightarrow> string" where
  "severity_string Sev_error = ''error''"
| "severity_string Sev_warning = ''warning''"
| "severity_string Sev_info = ''info''"
| "severity_string Sev_hint = ''hint''"

text \<open>The fields of a \<open>CodeIssue\<close> that \<open>applyFixes\<close> reads.\<close>

record codeIssue =
  issue_severity :: severity
  issue_message :: string
  issue_line :: nat

text \<open>
  JavaScript drops the arguments of a call beyond the callee's parameter list:
  \<open>this.executeTask(task, {issues: issueDescriptions})\<close> reaches the one-parameter
  \<open>executeTask\<close> as \<open>executeTask(task)\<close>.
\<close>

definition call_with_surplus :: "('x \<Rightarrow> 'y) \<Rightarrow> 'x \<Rightarrow> 'z \<Rightarrow> 'y" where
  "call_with_surplus f x surplus = f x"

definition applyFixes ::
  "'w clock \<Rightarrow> 'w llmProvider \<Rightarrow> ('a, 'w) codeAnalyzer \<Rightarrow> llmMessage list
     \<Rightarrow> string \<Rightarrow> codeIssue list \<Rightarrow> 'w \<Rightarrow> (js_error + 'a pyr_result) \<times> 'w" where
  "applyFixes clk provider analyzer conversationHistory src issues w =
     (let ctx = empty_context\<lparr>code := Some src\<rparr>;
          issueDescriptions =
            map (\<lambda>issue. severity_string (issue_severity issue) @ '': '' @ issue_message issue
                          @ '' (Line '' @ show_nat (issue_line issue) @ '')'') issues;
          (now, w1) = clk w;
          (created, w2) = clk w1;
          task = \<lparr>task_id = ''fix-'' @ show_nat now, task_type = ''fix'',
                  description = ''Fix code issues'', task_context = ctx,
                  task_status = Pending, result = None, error = None,
                  task_createdAt = created, task_completedAt = None\<rparr>;
          ((fixResult, task'), w3) =
            call_with_surplus
              (executeTask clk (initializeCapabilities provider analyzer conversationHistory))
              task (FixParameters issueDescriptions) w2
      in (fixResult, w3))"

section \<open>Notions used in the statements\<close>

text \<open>
  A task with its context blanked: two tasks with the same \<open>core\<close> agree on every field
  but the context.
\<close>

definition core :: "'r agentTask \<Rightarrow> 'r agentTask" where
  "core t = t\<lparr>task_context := empty_context\<rparr>"








section \<open>Example agents and chains\<close>

text \<open>
  A world that counts the provider calls made so far, a clock that reads the count, and
  two agents with the one capability \<open>general\<close>: the steady one answers every request
  with the count, the flaky one answers two requests and then rejects with an error whose
  message is empty.
\<close>

definition example_clock :: "nat clock" where
  "example_clock w = (w, w)"

definition example_random :: "nat random_source" where
  "example_random w = (''k3j9x0a1b'', w)"



definition example_task :: "string \<Rightarrow> string \<Rightarrow> status \<Rightarrow> nat agentTask" where
  "example_task tid ty st =
     \<lparr>task_id = tid, task_type = ty, description = ''Do something'',
      task_context = empty_context, task_status = st, result = None, error = None,
      task_createdAt = 0, task_completedAt = None\<rparr>"

definition example_chain :: "string \<Rightarrow> string list \<Rightarrow> status \<Rightarrow> nat taskChain" where
  "example_chain cid tys st =
     \<lparr>chain_id = cid, chain_name = ''demo'',
      tasks = map (\<lambda>ty. example_task (cid @ ''-task'') ty Pending) tys,
      chain_status = st, chain_createdAt = 0, chain_completedAt = None, results = []\<rparr>"

definition example_manager :: "nat taskManager" where
  "example_manager =
     \<lparr>taskChains = [''chain-a'' \<mapsto> example_chain ''chain-a'' [''general'', ''general''] Pending,
                    ''chain-b'' \<mapsto> example_chain ''chain-b'' [''general'', ''fix'', ''general''] Pending,
                    ''chain-c'' \<mapsto> (example_chain ''chain-c'' [] Running)
                       \<lparr>tasks := [example_task ''t0'' ''general'' Completed,
                                  example_task ''t1'' ''general'' Running,
                                  example_task ''t2'' ''general'' Pending]\<rparr>,
                    ''chain-d'' \<mapsto> example_chain ''chain-d'' [''general''] Failed],
      activeTasks = Map.empty\<rparr>"










definition empty_created :: "(nat taskChain \<times> nat taskManager) \<times> nat" where
  "empty_created =
     createTaskChain example_clock example_random ''empty'' [] None new_TaskManager 0"




text \<open>
  A world that is the log of the message lists sent to the provider, with a provider that
  records each request and answers \<open>fixed\<close>.
\<close>

definition logging_clock :: "llmMessage list list clock" where
  "logging_clock w = (0, w)"

definition logging_provider :: "llmMessage list list llmProvider" where
  "logging_provider messages w = (Inr ''fixed'', w @ [messages])"

definition no_analyzer :: "(unit, llmMessage list list) codeAnalyzer" where
  "no_analyzer src lang w = (Inr (), w)"

section \<open>Task-type inference: priority and examples\<close>

lemma str_includes_sublist: "str_includes s p \<longleftrightarrow> sublist p s"
  by (induction s) (auto simp: sublist_Cons_right)

lemma toLowerCase_char_idem: "toLowerCase_char (toLowerCase_char c) = toLowerCase_char c"
  unfolding toLowerCase_char_def upper_lower_table_def
  by (simp split: option.splits if_splits)

lemma toLowerCase_idem: "toLowerCase (toLowerCase s) = toLowerCase s"
  by (simp add: toLowerCase_def toLowerCase_char_idem)

text \<open>
  Claim C7, as stated, lists \<open>Repair the null check\<close> among the descriptions inferred as
  \<open>fix\<close>. The description contains \<open>check\<close>, a keyword of the first group, so the
  first-match-wins order makes it \<open>analyze\<close>.
\<close>

theorem inferTaskType_repair_null_check_counterexample:
  "inferTaskType ''Repair the null check'' \<noteq> ''fix''"
  by code_simp

text \<open>
  Claim C7, amended: the inferred type depends on the lower-cased description only and is
  decided by substring matching in the priority order analyze/check/review, then
  fix/correct/repair, then generate/create/write, then explain/describe/clarify, else
  general. \<open>Review this function for bugs\<close> is \<open>analyze\<close>, \<open>Write a sorting function\<close>
  is \<open>generate\<close>, \<open>Repair the null check\<close> is \<open>analyze\<close> (it contains \<open>check\<close>),
  \<open>Describe what this does\<close> is \<open>explain\<close> and \<open>Do something\<close> is \<open>general\<close>.
\<close>

theorem inferTaskType_priority:
  "inferTaskType d =
     (if sublist ''analyze'' (toLowerCase d) \<or> sublist ''check'' (toLowerCase d)
           \<or> sublist ''review'' (toLowerCase d) then ''analyze''
      else if sublist ''fix'' (toLowerCase d) \<or> sublist ''correct'' (toLowerCase d)
           \<or> sublist ''repair'' (toLowerCase d) then ''fix''
      else if sublist ''generate'' (toLowerCase d) \<or> sublist ''create'' (toLowerCase d)
           \<or> sublist ''write'' (toLowerCase d) then ''generate''
      else if sublist ''explain'' (toLowerCase d) \<or> sublist ''describe'' (toLowerCase d)
           \<or> sublist ''clarify'' (toLowerCase d) then ''explain''
      else ''general'')
   \<and> inferTaskType (toLowerCase d) = inferTaskType d
   \<and> inferTaskType ''Review this function for bugs'' = ''analyze''
   \<and> inferTaskType ''Write a sorting function'' = ''generate''
   \<and> inferTaskType ''Repair the null check'' = ''analyze''
   \<and> inferTaskType ''Describe what this does'' = ''explain''
   \<and> inferTaskType ''Do something'' = ''general''"
proof -
  have a: "inferTaskType d =
     (if sublist ''analyze'' (toLowerCase d) \<or> sublist ''check'' (toLowerCase d)
           \<or> sublist ''review'' (toLowerCase d) then ''analyze''
      else if sublist ''fix'' (toLowerCase d) \<or> sublist ''correct'' (toLowerCase d)
           \<or> sublist ''repair'' (toLowerCase d) then ''fix''
      else if sublist ''generate'' (toLowerCase d) \<or> sublist ''create'' (toLowerCase d)
           \<or> sublist ''write'' (toLowerCase d) then ''generate''
      else if sublist ''explain'' (toLowerCase d) \<or> sublist ''describe'' (toLowerCase d)
           \<or> sublist ''clarify'' (toLowerCase d) then ''explain''
      else ''general'')"
    unfolding inferTaskType_def Let_def str_includes_sublist by (rule refl)
  have b: "inferTaskType (toLowerCase d) = inferTaskType d"
    unfolding inferTaskType_def by (simp only: toLowerCase_idem)
  have e1: "inferTaskType ''Review this function for bugs'' = ''analyze''"
    by code_simp
  have e2: "inferTaskType ''Write a sorting function'' = ''generate''"
    by code_simp
  have e3: "inferTaskType ''Repair the null check'' = ''analyze''"
    by code_simp
  have e4: "inferTaskType ''Describe what this does'' = ''explain''"
    by code_simp
  have e5: "inferTaskType ''Do something'' = ''general''"
    by code_simp
  from a b e1 e2 e3 e4 e5 show ?thesis by (intro conjI)
qed

theorem inferTaskType_priority_witness:
  "inferTaskType (toLowerCase ''Repair the NULL pointer'') = ''fix''"
proof -
  have "inferTaskType ''Repair the NULL pointer'' = ''fix''"
    by code_simp
  with inferTaskType_priority [of "''Repair the NULL pointer''"] show ?thesis
    by (simp only:)
qed

section \<open>Conversation history: the sliding window\<close>

lemma slice_from_last20: "slice_from (- 20) xs = drop (length xs - 20) xs"
  by (auto simp: slice_from_def Let_def max_def nat_diff_distrib intro: arg_cong2[where f=drop])

lemma addToConversation_eq:
  "addToConversation r c h = drop (Suc (length h) - 20) (h @ [\<lparr>role = r, content = c\<rparr>])"
  by (simp add: addToConversation_def Let_def slice_from_last20)

lemma length_addToConversation: "length (addToConversation r c h) = min (Suc (length h)) 20"
  by (simp add: addToConversation_eq)

lemma foldl_addToConversation:
  "length h \<le> 20 \<Longrightarrow> foldl (\<lambda>h t. addToConversation (fst t) (snd t) h) h turns
     = drop (length h + length turns - 20)
         (h @ map (\<lambda>t. \<lparr>role = fst t, content = snd t\<rparr>) turns)"
proof (induction turns arbitrary: h)
  case Nil
  then show ?case by simp
next
  case (Cons t turns)
  let ?m = "\<lparr>role = fst t, content = snd t\<rparr>"
  let ?h = "addToConversation (fst t) (snd t) h"
  let ?ms = "map (\<lambda>t. \<lparr>role = fst t, content = snd t\<rparr>) turns"
  have l: "length ?h \<le> 20"
    by (simp add: length_addToConversation)
  have step: "foldl (\<lambda>h t. addToConversation (fst t) (snd t) h) h (t # turns)
      = drop (length ?h + length turns - 20) (?h @ ?ms)"
    using Cons.IH [OF l] by simp
  show ?case
  proof (cases "length h < 20")
    case True
    then have "?h = h @ [?m]" by (simp add: addToConversation_eq)
    then show ?thesis using step by simp
  next
    case False
    with Cons.prems have n: "length h = 20" by simp
    then have h: "?h = drop 1 h @ [?m]" by (simp add: addToConversation_eq)
    have "drop (length ?h + length turns - 20) (?h @ ?ms)
        = drop (length turns) (drop 1 (h @ ?m # ?ms))"
      using n by (simp add: h)
    also have "\<dots> = drop (length h + length (t # turns) - 20)
        (h @ map (\<lambda>t. \<lparr>role = fst t, content = snd t\<rparr>) (t # turns))"
      using n by (simp del: drop_append)
    finally show ?thesis using step by simp
  qed
qed

text \<open>
  Claim C9: after any call of \<open>addToConversation\<close> the history holds at most 20 entries,
  and it is the last 20 entries of the old history followed by the new turn. Starting
  from the empty history of a new agent, any sequence of calls leaves exactly the most
  recent 20 turns (all of them, when there are fewer), in order.
\<close>

theorem conversation_window:
  "length (addToConversation r c h) \<le> 20
   \<and> addToConversation r c h = drop (Suc (length h) - 20) (h @ [\<lparr>role = r, content = c\<rparr>])
   \<and> length (foldl (\<lambda>h t. addToConversation (fst t) (snd t) h) [] turns) = min (length turns) 20
   \<and> foldl (\<lambda>h t. addToConversation (fst t) (snd t) h) [] turns
        = drop (length turns - 20) (map (\<lambda>t. \<lparr>role = fst t, content = snd t\<rparr>) turns)"
proof -
  have a: "length (addToConversation r c h) \<le> 20"
    by (simp add: length_addToConversation)
  have d: "foldl (\<lambda>h t. addToConversation (fst t) (snd t) h) [] turns
        = drop (length turns - 20) (map (\<lambda>t. \<lparr>role = fst t, content = snd t\<rparr>) turns)"
    using foldl_addToConversation [of "[]" turns] by simp
  have c: "length (foldl (\<lambda>h t. addToConversation (fst t) (snd t) h) [] turns)
        = min (length turns) 20"
    unfolding d by simp
  from a addToConversation_eq c d show ?thesis by (intro conjI)
qed

theorem conversation_window_witness:
  "length (foldl (\<lambda>h t. addToConversation (fst t) (snd t) h) []
     (replicate 25 (User, ''hello''))) = 20
   \<and> length (addToConversation Assistant ''hi''
        (replicate 20 \<lparr>role = User, content = ''q''\<rparr>)) \<le> 20"
  using conversation_window [of Assistant "''hi''"
      "replicate 20 \<lparr>role = User, content = ''q''\<rparr>" "replicate 25 (User, ''hello'')"]
  by simp

section \<open>The single-task executor and one loop iteration\<close>

lemma core_update [simp]:
  "core (t\<lparr>task_context := c\<rparr>) = core t"
  "core (t\<lparr>task_status := s\<rparr>) = (core t)\<lparr>task_status := s\<rparr>"
  "core (t\<lparr>result := r\<rparr>) = (core t)\<lparr>result := r\<rparr>"
  "core (t\<lparr>error := e\<rparr>) = (core t)\<lparr>error := e\<rparr>"
  "core (t\<lparr>task_completedAt := d\<rparr>) = (core t)\<lparr>task_completedAt := d\<rparr>"
  by (simp_all add: core_def)

lemma core_sel [simp]:
  "task_status (core t) = task_status t"
  "result (core t) = result t"
  "error (core t) = error t"
  "task_completedAt (core t) = task_completedAt t"
  "task_id (core t) = task_id t"
  "task_type (core t) = task_type t"
  "description (core t) = description t"
  "task_createdAt (core t) = task_createdAt t"
  by (simp_all add: core_def)


lemma handle_rejection_message:
  "read_message err = Inr msg \<Longrightarrow> handle_rejection clk err task1 w1 =
     ((Inl err, task1\<lparr>task_status := Failed, error := msg,
                      task_completedAt := Some (fst (clk w1))\<rparr>), snd (clk w1))"
  by (simp add: handle_rejection_def Let_def split: prod.splits)

lemma handle_rejection_throws:
  "read_message err = Inl type_error \<Longrightarrow> handle_rejection clk err task1 w1 =
     ((Inl type_error, task1\<lparr>task_status := Failed\<rparr>), w1)"
  by (simp add: handle_rejection_def Let_def)

lemma read_message_cases:
  "(read_message err = Inr (error_message err) \<and> err \<noteq> Null \<and> err \<noteq> Undefined)
   \<or> (read_message err = Inl (message_type_error err) \<and> (err = Null \<or> err = Undefined))"
  by (cases err) (simp_all add: read_message_def error_message_def)

lemma handle_rejection_Inr [simp]:
  "handle_rejection clk err task1 w1 \<noteq> ((Inr r, task'), w')"
  using read_message_cases [of err]
  by (auto simp: handle_rejection_message handle_rejection_throws)
















lemma nth_share_results:
  "j < length ts \<Longrightarrow> share_results rs i ts ! j =
     (if j \<le> i then (ts ! j)\<lparr>task_context := (task_context (ts ! j))\<lparr>previousResults := Some rs\<rparr>\<rparr>
      else ts ! j)"
  by (auto simp: share_results_def nth_append min_def)

lemma core_nth_share_results [simp]:
  "j < length ts \<Longrightarrow> core (share_results rs i ts ! j) = core (ts ! j)"
  by (simp add: nth_share_results)

section \<open>The loop of \<open>executeTaskChain\<close>\<close>












section \<open>Chain execution: success\<close>







section \<open>Chain execution: failure\<close>












section \<open>The single-task executor: outcomes\<close>









section \<open>Cancellation\<close>

lemma cancel_tasks_rel:
  "cancel_tasks clk ts w = (ts', w')
   \<Longrightarrow> list_all2 (\<lambda>t t'. if task_status t = Running
                         then task_status t' = Failed
                              \<and> error t' = Some ''Cancelled by user''
                              \<and> task_completedAt t' \<noteq> None
                         else t' = t) ts ts'"
proof (induction ts arbitrary: w ts' w')
  case Nil
  then show ?case by simp
next
  case (Cons t ts)
  show ?case
  proof (cases "task_status t = Running")
    case True
    obtain d w1 where c: "clk w = (d, w1)" by (cases "clk w")
    obtain ts1 w2 where r: "cancel_tasks clk ts w1 = (ts1, w2)" by (cases "cancel_tasks clk ts w1")
    from Cons.prems True c r
    have "ts' = t\<lparr>task_status := Failed, error := Some ''Cancelled by user'',
                   task_completedAt := Some d\<rparr> # ts1"
      by (simp add: Let_def)
    with Cons.IH [OF r] True show ?thesis by simp
  next
    case False
    obtain ts1 w2 where r: "cancel_tasks clk ts w = (ts1, w2)" by (cases "cancel_tasks clk ts w")
    from Cons.prems False r have "ts' = t # ts1" by (simp add: Let_def)
    with Cons.IH [OF r] False show ?thesis by simp
  qed
qed

lemma cancelTaskChain_running:
  assumes "taskChains tm chainId = Some chain" and "chain_status chain = Running"
  shows "cancelTaskChain clk chainId tm w =
     ((True, tm\<lparr>taskChains := (taskChains tm)(chainId \<mapsto>
          chain\<lparr>tasks := fst (cancel_tasks clk (tasks chain) w),
                chain_status := Failed,
                chain_completedAt := Some (fst (clk (snd (cancel_tasks clk (tasks chain) w))))\<rparr>)\<rparr>),
      snd (clk (snd (cancel_tasks clk (tasks chain) w))))"
  using assms by (simp add: cancelTaskChain_def Let_def split: prod.splits)

lemma cancelTaskChain_not_running:
  "taskChains tm chainId = None \<Longrightarrow> cancelTaskChain clk chainId tm w = ((False, tm), w)"
  "taskChains tm chainId = Some chain \<Longrightarrow> chain_status chain \<noteq> Running
     \<Longrightarrow> cancelTaskChain clk chainId tm w = ((False, tm), w)"
  by (simp_all add: cancelTaskChain_def)

text \<open>
  Claim C4: on a chain whose status is \<open>running\<close>, \<open>cancelTaskChain\<close> returns true,
  the chain becomes \<open>failed\<close> with \<open>completedAt\<close> set, and every task that was
  \<open>running\<close> becomes \<open>failed\<close> with the error \<open>Cancelled by user\<close> and a completion
  time; no other chain of the map changes. On an unknown chain id, or on a chain whose
  status is not \<open>running\<close>, it returns false and the manager is unchanged.
\<close>

theorem cancelTaskChain_outcomes:
  "(taskChains tm chainId = Some chain \<and> chain_status chain = Running \<longrightarrow>
      (\<exists>chain' w'. cancelTaskChain clk chainId tm w
            = ((True, tm\<lparr>taskChains := (taskChains tm)(chainId \<mapsto> chain')\<rparr>), w')
         \<and> chain_status chain' = Failed
         \<and> chain_completedAt chain' \<noteq> None
         \<and> length (tasks chain') = length (tasks chain)
         \<and> (\<forall>i<length (tasks chain). task_status (tasks chain ! i) = Running \<longrightarrow>
               task_status (tasks chain' ! i) = Failed
               \<and> error (tasks chain' ! i) = Some ''Cancelled by user''
               \<and> task_completedAt (tasks chain' ! i) \<noteq> None)))
   \<and> (taskChains tm chainId = None \<longrightarrow> cancelTaskChain clk chainId tm w = ((False, tm), w))
   \<and> (taskChains tm chainId = Some chain \<and> chain_status chain \<noteq> Running \<longrightarrow>
        cancelTaskChain clk chainId tm w = ((False, tm), w))"
proof (intro conjI impI)
  assume a: "taskChains tm chainId = Some chain \<and> chain_status chain = Running"
  let ?ts = "fst (cancel_tasks clk (tasks chain) w)"
  let ?w1 = "snd (cancel_tasks clk (tasks chain) w)"
  let ?chain' = "chain\<lparr>tasks := ?ts, chain_status := Failed,
                       chain_completedAt := Some (fst (clk ?w1))\<rparr>"
  have rel: "list_all2 (\<lambda>t t'. if task_status t = Running
                         then task_status t' = Failed
                              \<and> error t' = Some ''Cancelled by user''
                              \<and> task_completedAt t' \<noteq> None
                         else t' = t) (tasks chain) ?ts"
    by (rule cancel_tasks_rel [of clk _ w _ ?w1]) simp
  have len: "length ?ts = length (tasks chain)"
    using rel by (simp add: list_all2_lengthD)
  have run: "\<forall>i<length (tasks chain). task_status (tasks chain ! i) = Running \<longrightarrow>
               task_status (?ts ! i) = Failed
               \<and> error (?ts ! i) = Some ''Cancelled by user''
               \<and> task_completedAt (?ts ! i) \<noteq> None"
  proof (intro allI impI)
    fix i assume "i < length (tasks chain)" "task_status (tasks chain ! i) = Running"
    with list_all2_nthD [OF rel, of i]
    show "task_status (?ts ! i) = Failed
               \<and> error (?ts ! i) = Some ''Cancelled by user''
               \<and> task_completedAt (?ts ! i) \<noteq> None" by simp
  qed
  show "\<exists>chain' w'. cancelTaskChain clk chainId tm w
            = ((True, tm\<lparr>taskChains := (taskChains tm)(chainId \<mapsto> chain')\<rparr>), w')
         \<and> chain_status chain' = Failed
         \<and> chain_completedAt chain' \<noteq> None
         \<and> length (tasks chain') = length (tasks chain)
         \<and> (\<forall>i<length (tasks chain). task_status (tasks chain ! i) = Running \<longrightarrow>
               task_status (tasks chain' ! i) = Failed
               \<and> error (tasks chain' ! i) = Some ''Cancelled by user''
               \<and> task_completedAt (tasks chain' ! i) \<noteq> None)"
    apply (rule exI [of _ ?chain'])
    apply (rule exI [of _ "snd (clk ?w1)"])
    apply (intro conjI)
        apply (rule cancelTaskChain_running [OF a [THEN conjunct1] a [THEN conjunct2]])
       apply simp
      apply simp
     apply (simp add: len)
    using run apply simp
    done
next
  assume "taskChains tm chainId = None"
  then show "cancelTaskChain clk chainId tm w = ((False, tm), w)"
    by (rule cancelTaskChain_not_running)
next
  assume "taskChains tm chainId = Some chain \<and> chain_status chain \<noteq> Running"
  then show "cancelTaskChain clk chainId tm w = ((False, tm), w)"
    by (auto intro: cancelTaskChain_not_running)
qed

theorem cancelTaskChain_outcomes_witness:
  "(\<exists>chain' w'. cancelTaskChain example_clock ''chain-c'' example_manager 7
        = ((True, example_manager\<lparr>taskChains :=
               (taskChains example_manager)(''chain-c'' \<mapsto> chain')\<rparr>), w')
      \<and> chain_status chain' = Failed
      \<and> chain_completedAt chain' \<noteq> None
      \<and> task_status (tasks chain' ! 1) = Failed
      \<and> error (tasks chain' ! 1) = Some ''Cancelled by user''
      \<and> task_completedAt (tasks chain' ! 1) \<noteq> None)
   \<and> cancelTaskChain example_clock ''chain-z'' example_manager 7 = ((False, example_manager), 7)
   \<and> cancelTaskChain example_clock ''chain-d'' example_manager 7 = ((False, example_manager), 7)"
proof -
  let ?c = "(example_chain ''chain-c'' [] Running)
                       \<lparr>tasks := [example_task ''t0'' ''general'' Completed,
                                  example_task ''t1'' ''general'' Running,
                                  example_task ''t2'' ''general'' Pending]\<rparr>"
  let ?d = "example_chain ''chain-d'' [''general''] Failed"
  have c: "taskChains example_manager ''chain-c'' = Some ?c \<and> chain_status ?c = Running"
    by (simp add: example_manager_def example_chain_def)
  have z: "taskChains example_manager ''chain-z'' = None"
    by (simp add: example_manager_def)
  have d: "taskChains example_manager ''chain-d'' = Some ?d \<and> chain_status ?d \<noteq> Running"
    by (simp add: example_manager_def example_chain_def)
  have i1: "1 < length (tasks ?c)" "task_status (tasks ?c ! 1) = Running"
    by (simp_all add: example_chain_def example_task_def)
  from cancelTaskChain_outcomes [of example_manager "''chain-c''" ?c example_clock 7,
      THEN conjunct1, rule_format, OF c]
  obtain chain' w' where
    r: "cancelTaskChain example_clock ''chain-c'' example_manager 7
        = ((True, example_manager\<lparr>taskChains :=
               (taskChains example_manager)(''chain-c'' \<mapsto> chain')\<rparr>), w')"
    and s: "chain_status chain' = Failed"
    and a: "chain_completedAt chain' \<noteq> None"
    and t: "\<forall>i<length (tasks ?c). task_status (tasks ?c ! i) = Running \<longrightarrow>
               task_status (tasks chain' ! i) = Failed
               \<and> error (tasks chain' ! i) = Some ''Cancelled by user''
               \<and> task_completedAt (tasks chain' ! i) \<noteq> None"
    by blast
  from t i1 have t1: "task_status (tasks chain' ! 1) = Failed"
    "error (tasks chain' ! 1) = Some ''Cancelled by user''"
    "task_completedAt (tasks chain' ! 1) \<noteq> None"
    by blast+
  have p1: "\<exists>chain' w'. cancelTaskChain example_clock ''chain-c'' example_manager 7
        = ((True, example_manager\<lparr>taskChains :=
               (taskChains example_manager)(''chain-c'' \<mapsto> chain')\<rparr>), w')
      \<and> chain_status chain' = Failed
      \<and> chain_completedAt chain' \<noteq> None
      \<and> task_status (tasks chain' ! 1) = Failed
      \<and> error (tasks chain' ! 1) = Some ''Cancelled by user''
      \<and> task_completedAt (tasks chain' ! 1) \<noteq> None"
    apply (rule exI [of _ chain'])
    apply (rule exI [of _ w'])
    apply (intro conjI r s a t1)
    done
  have p2: "cancelTaskChain example_clock ''chain-z'' example_manager 7 = ((False, example_manager), 7)"
    using cancelTaskChain_outcomes [of example_manager "''chain-z''" ?c example_clock 7,
      THEN conjunct2, THEN conjunct1, rule_format, OF z] .
  have p3: "cancelTaskChain example_clock ''chain-d'' example_manager 7 = ((False, example_manager), 7)"
    using cancelTaskChain_outcomes [of example_manager "''chain-d''" ?d example_clock 7,
      THEN conjunct2, THEN conjunct2, rule_format, OF d] .
  from p1 p2 p3 show ?thesis by (intro conjI)
qed

text \<open>
  Claim C10: cancelling a \<open>running\<close> chain changes only the tasks that are \<open>running\<close>.
  Every other task is the same object as before; in particular a \<open>pending\<close> task stays
  \<open>pending\<close> with its error and completion time as they were (absent, in a task that
  was never run). The chain is then \<open>failed\<close>, and cancelling it again returns false
  and changes nothing, so such a task is never marked as cancelled.
\<close>

theorem cancelTaskChain_frame:
  assumes ch: "taskChains tm chainId = Some chain" and run: "chain_status chain = Running"
  shows "\<exists>chain' w'. cancelTaskChain clk chainId tm w
            = ((True, tm\<lparr>taskChains := (taskChains tm)(chainId \<mapsto> chain')\<rparr>), w')
     \<and> chain_status chain' = Failed
     \<and> length (tasks chain') = length (tasks chain)
     \<and> (\<forall>i<length (tasks chain). task_status (tasks chain ! i) \<noteq> Running \<longrightarrow>
           tasks chain' ! i = tasks chain ! i)
     \<and> (\<forall>i<length (tasks chain). task_status (tasks chain ! i) = Pending \<longrightarrow>
           task_status (tasks chain' ! i) = Pending
           \<and> error (tasks chain' ! i) = error (tasks chain ! i)
           \<and> task_completedAt (tasks chain' ! i) = task_completedAt (tasks chain ! i))
     \<and> (\<forall>w''. cancelTaskChain clk chainId
                  (tm\<lparr>taskChains := (taskChains tm)(chainId \<mapsto> chain')\<rparr>) w''
               = ((False, tm\<lparr>taskChains := (taskChains tm)(chainId \<mapsto> chain')\<rparr>), w''))"
proof -
  let ?ts = "fst (cancel_tasks clk (tasks chain) w)"
  let ?w1 = "snd (cancel_tasks clk (tasks chain) w)"
  let ?chain' = "chain\<lparr>tasks := ?ts, chain_status := Failed,
                       chain_completedAt := Some (fst (clk ?w1))\<rparr>"
  have rel: "list_all2 (\<lambda>t t'. if task_status t = Running
                         then task_status t' = Failed
                              \<and> error t' = Some ''Cancelled by user''
                              \<and> task_completedAt t' \<noteq> None
                         else t' = t) (tasks chain) ?ts"
    by (rule cancel_tasks_rel [of clk _ w _ ?w1]) simp
  have len: "length ?ts = length (tasks chain)"
    using rel by (simp add: list_all2_lengthD)
  have same: "\<forall>i<length (tasks chain). task_status (tasks chain ! i) \<noteq> Running \<longrightarrow>
           ?ts ! i = tasks chain ! i"
  proof (intro allI impI)
    fix i assume "i < length (tasks chain)" "task_status (tasks chain ! i) \<noteq> Running"
    with list_all2_nthD [OF rel, of i] show "?ts ! i = tasks chain ! i" by simp
  qed
  have pend: "\<forall>i<length (tasks chain). task_status (tasks chain ! i) = Pending \<longrightarrow>
           task_status (?ts ! i) = Pending
           \<and> error (?ts ! i) = error (tasks chain ! i)
           \<and> task_completedAt (?ts ! i) = task_completedAt (tasks chain ! i)"
    using same by simp
  have again: "\<forall>w''. cancelTaskChain clk chainId
                  (tm\<lparr>taskChains := (taskChains tm)(chainId \<mapsto> ?chain')\<rparr>) w''
               = ((False, tm\<lparr>taskChains := (taskChains tm)(chainId \<mapsto> ?chain')\<rparr>), w'')"
    by (simp add: cancelTaskChain_def)
  show ?thesis
    apply (rule exI [of _ ?chain'])
    apply (rule exI [of _ "snd (clk ?w1)"])
    apply (intro conjI)
         apply (rule cancelTaskChain_running [OF ch run])
        apply simp
       apply (simp add: len)
    using same apply simp
    using pend apply simp
    using again apply simp
    done
qed

theorem cancelTaskChain_frame_witness:
  "\<exists>chain' w'. cancelTaskChain example_clock ''chain-c'' example_manager 7
        = ((True, example_manager\<lparr>taskChains :=
               (taskChains example_manager)(''chain-c'' \<mapsto> chain')\<rparr>), w')
     \<and> chain_status chain' = Failed
     \<and> tasks chain' ! 0 = example_task ''t0'' ''general'' Completed
     \<and> tasks chain' ! 2 = example_task ''t2'' ''general'' Pending
     \<and> task_status (tasks chain' ! 2) = Pending
     \<and> error (tasks chain' ! 2) = None
     \<and> task_completedAt (tasks chain' ! 2) = None"
proof -
  let ?c = "(example_chain ''chain-c'' [] Running)
                       \<lparr>tasks := [example_task ''t0'' ''general'' Completed,
                                  example_task ''t1'' ''general'' Running,
                                  example_task ''t2'' ''general'' Pending]\<rparr>"
  have c: "taskChains example_manager ''chain-c'' = Some ?c"
    by (simp add: example_manager_def)
  have r: "chain_status ?c = Running" by (simp add: example_chain_def)
  have i0: "0 < length (tasks ?c)" "task_status (tasks ?c ! 0) \<noteq> Running"
    "tasks ?c ! 0 = example_task ''t0'' ''general'' Completed"
    by (simp_all add: example_chain_def example_task_def)
  have i2: "2 < length (tasks ?c)" "task_status (tasks ?c ! 2) \<noteq> Running"
    "tasks ?c ! 2 = example_task ''t2'' ''general'' Pending"
    by (simp_all add: example_chain_def example_task_def)
  from cancelTaskChain_frame [OF c r, of example_clock 7] obtain chain' w' where
    ex: "cancelTaskChain example_clock ''chain-c'' example_manager 7
        = ((True, example_manager\<lparr>taskChains :=
               (taskChains example_manager)(''chain-c'' \<mapsto> chain')\<rparr>), w')"
    and s: "chain_status chain' = Failed"
    and same: "\<forall>i<length (tasks ?c). task_status (tasks ?c ! i) \<noteq> Running \<longrightarrow>
           tasks chain' ! i = tasks ?c ! i"
    by blast
  from same i0 have t0: "tasks chain' ! 0 = example_task ''t0'' ''general'' Completed"
    by metis
  from same i2 have t2: "tasks chain' ! 2 = example_task ''t2'' ''general'' Pending"
    by metis
  have t2s: "task_status (tasks chain' ! 2) = Pending" "error (tasks chain' ! 2) = None"
    "task_completedAt (tasks chain' ! 2) = None"
    unfolding t2 by (simp_all add: example_task_def)
  show ?thesis
    apply (rule exI [of _ chain'])
    apply (rule exI [of _ w'])
    apply (intro conjI ex s t0 t2 t2s)
    done
qed

section \<open>Progress\<close>

lemma getTaskProgress_missing:
  "taskChains tm chainId = None \<Longrightarrow> getTaskProgress chainId tm = Finite 0"
  by (simp add: getTaskProgress_def)

lemma getTaskProgress_nonempty:
  assumes "taskChains tm chainId = Some chain" and "tasks chain \<noteq> []"
  shows "\<exists>q. getTaskProgress chainId tm = Finite q \<and> 0 \<le> q \<and> q \<le> 1
     \<and> q = real (length (filter (\<lambda>t. task_status t = Completed) (tasks chain)))
           / real (length (tasks chain))"
proof -
  have "length (filter (\<lambda>t. task_status t = Completed) (tasks chain)) \<le> length (tasks chain)"
    by simp
  then have "real (length (filter (\<lambda>t. task_status t = Completed) (tasks chain)))
           / real (length (tasks chain)) \<le> 1"
    using assms(2) by (simp add: divide_le_eq_1)
  with assms show ?thesis
    by (simp add: getTaskProgress_def js_divide_def Let_def)
qed

lemma getTaskProgress_no_tasks:
  "taskChains tm chainId = Some chain \<Longrightarrow> tasks chain = []
     \<Longrightarrow> getTaskProgress chainId tm = NaN"
  by (simp add: getTaskProgress_def js_divide_def)

text \<open>
  Claim C6 holds for an unknown chain id (the result is 0) and for a chain with at least
  one task (the result is the share of completed tasks, between 0 and 1). For a chain
  with no tasks the code divides zero by zero: \<open>getTaskProgress\<close> on the chain that
  \<open>createTaskChain\<close> makes from an empty list of descriptions is \<open>NaN\<close>, not 0.
\<close>

theorem getTaskProgress_empty_chain_is_NaN:
  "tasks (fst (fst empty_created)) = []
   \<and> getTaskChain (chain_id (fst (fst empty_created))) (snd (fst empty_created))
       = Some (fst (fst empty_created))
   \<and> getTaskProgress (chain_id (fst (fst empty_created))) (snd (fst empty_created)) = NaN"
  by code_simp

section \<open>\<open>applyFixes\<close> and the issue descriptions\<close>

text \<open>
  Claim C8 fails on the code. \<open>applyFixes\<close> builds the issue descriptions and hands them
  to \<open>executeTask\<close> as a second argument, which \<open>executeTask\<close> does not have: the
  capability runs without parameters, so the result of \<open>applyFixes\<close> does not depend on
  the issues at all. With the code \<open>x=1\<close> and one issue, the prompt that reaches the
  provider has an empty \<open>Issues:\<close> line; the \<open>fix\<close> capability itself, when it is given
  the descriptions as parameters, puts them there.
\<close>

theorem applyFixes_drops_issues:
  "applyFixes clk provider analyzer conversationHistory src issues w
     = applyFixes clk provider analyzer conversationHistory src [] w
   \<and> applyFixes logging_clock logging_provider no_analyzer [] ''x=1''
       [\<lparr>issue_severity = Sev_error, issue_message = ''unused variable'', issue_line = 1\<rparr>] []
     = (Inr (Content ''fixed''),
        [[\<lparr>role = System, content = SYSTEM_PROMPT\<rparr>,
          \<lparr>role = User, content =
             ''Fix the following issues in the code:\<newline>'' @
             ''Issues: \<newline>'' @
             ''\<newline>'' @
             ''Original Code:\<newline>'' @
             ''x=1\<newline>'' @
             ''\<newline>'' @
             ''Provide the corrected code with explanations for each fix.''\<rparr>]])
   \<and> fix_execute logging_provider (empty_context\<lparr>code := Some ''x=1''\<rparr>)
       (Some (FixParameters [''error: unused variable (Line 1)''])) []
     = (Inr (Content ''fixed'' :: unit pyr_result),
        [[\<lparr>role = System, content = SYSTEM_PROMPT\<rparr>,
          \<lparr>role = User, content =
             ''Fix the following issues in the code:\<newline>'' @
             ''Issues: error: unused variable (Line 1)\<newline>'' @
             ''\<newline>'' @
             ''Original Code:\<newline>'' @
             ''x=1\<newline>'' @
             ''\<newline>'' @
             ''Provide the corrected code with explanations for each fix.''\<rparr>]])"
proof (intro conjI)
  show "applyFixes clk provider analyzer conversationHistory src issues w
     = applyFixes clk provider analyzer conversationHistory src [] w"
    by (simp add: applyFixes_def call_with_surplus_def)
  show "applyFixes logging_clock logging_provider no_analyzer [] ''x=1''
       [\<lparr>issue_severity = Sev_error, issue_message = ''unused variable'', issue_line = 1\<rparr>] []
     = (Inr (Content ''fixed''),
        [[\<lparr>role = System, content = SYSTEM_PROMPT\<rparr>,
          \<lparr>role = User, content =
             ''Fix the following issues in the code:\<newline>'' @
             ''Issues: \<newline>'' @
             ''\<newline>'' @
             ''Original Code:\<newline>'' @
             ''x=1\<newline>'' @
             ''\<newline>'' @
             ''Provide the corrected code with explanations for each fix.''\<rparr>]])"
    by code_simp
  show "fix_execute logging_provider (empty_context\<lparr>code := Some ''x=1''\<rparr>)
       (Some (FixParameters [''error: unused variable (Line 1)''])) []
     = (Inr (Content ''fixed'' :: unit pyr_result),
        [[\<lparr>role = System, content = SYSTEM_PROMPT\<rparr>,
          \<lparr>role = User, content =
             ''Fix the following issues in the code:\<newline>'' @
             ''Issues: error: unused variable (Line 1)\<newline>'' @
             ''\<newline>'' @
             ''Original Code:\<newline>'' @
             ''x=1\<newline>'' @
             ''\<newline>'' @
             ''Provide the corrected code with explanations for each fix.''\<rparr>]])"
    by code_simp
qed

section \<open>Results and completed tasks\<close>








end
